theory Spec2Isabelle
  imports Complex_Main "HOL-Library.AList"
begin

section \<open>Errors\<close>

text \<open>
  Every exception the region code can raise is a value of this type.  The two
  \<open>ValueError\<close>s of the source are told apart by their message:
  \<open>UnsupportedTopology\<close> is \<open>ValueError('Currently unsupported topology')\<close>,
  \<open>MissingBoundaryData\<close> is the \<open>ValueError\<close> that asks for
  \<open>keep_yboundaries=True\<close>.  \<open>ConcatError\<close> is the failure of
  \<open>xr.concat(..., join='exact')\<close> on blocks whose sizes along the other axis
  differ, \<open>AssignCoordsError\<close> the failure of \<open>assign_coords\<close> on a
  coordinate of the wrong length.
\<close>

datatype error =
    KeyError
  | IndexError
  | AttributeError
  | UnsupportedTopology
  | NotImplementedError
  | MissingBoundaryData
  | ConcatError
  | AssignCoordsError

text \<open>Sequencing of calls that may raise: the first exception ends the computation.\<close>

definition bind_err :: "error + 'a \<Rightarrow> ('a \<Rightarrow> error + 'b) \<Rightarrow> error + 'b" where
  "bind_err m f = (case m of Inl e \<Rightarrow> Inl e | Inr v \<Rightarrow> f v)"

section \<open>Python indexing and slicing\<close>

text \<open>
  \<open>xs[i]\<close> for an integer \<open>i\<close>: a negative index counts from the end, an index
  out of range raises \<open>IndexError\<close>.
\<close>

definition py_index :: "'a list \<Rightarrow> int \<Rightarrow> error + 'a" where
  "py_index xs i =
    (let n = int (length xs);
         j = (if i < 0 then i + n else i)
     in if 0 \<le> j \<and> j < n then Inr (xs ! nat j) else Inl IndexError)"

text \<open>A Python \<open>slice(start, stop)\<close>; \<open>None\<close> is an omitted bound.\<close>

datatype slice = Slice "int option" "int option"

text \<open>
  \<open>xs[start:stop]\<close>: a negative bound counts from the end, every bound is clipped
  to the list, and the result is empty when the clipped stop is not after the clipped
  start.  Slicing never raises.
\<close>

definition clip_index :: "int \<Rightarrow> int \<Rightarrow> int" where
  "clip_index n i = (if i < 0 then max (i + n) 0 else min i n)"

fun py_slice :: "slice \<Rightarrow> 'a list \<Rightarrow> 'a list" where
  "py_slice (Slice a b) xs =
    (let n = int (length xs);
         s = (case a of None \<Rightarrow> 0 | Some i \<Rightarrow> clip_index n i);
         e = (case b of None \<Rightarrow> n | Some i \<Rightarrow> clip_index n i)
     in take (nat (e - s)) (drop (nat s) xs))"

text \<open>The number of indices a slice selects from an axis of the given size.\<close>

definition slice_len :: "slice \<Rightarrow> nat \<Rightarrow> nat" where
  "slice_len s n = length (py_slice s [0..<n])"

section \<open>The Region class\<close>

text \<open>
  The attributes set by \<open>Region.__init__\<close> when a dataset is given: the two
  dimension names and the four physical coordinate extents.  Floating point numbers
  are idealised as reals.
\<close>

record extents =
  xcoord :: string
  ycoord :: string
  xinner :: real
  xouter :: real
  ylower :: real
  yupper :: real

text \<open>
  A Region with its four index bounds given, as every caller in the repository gives
  them; then \<open>nx\<close> and \<open>ny\<close> are always set.  \<open>geometry\<close> is
  \<open>None\<close> for a Region made without a dataset, whose six coordinate attributes
  do not exist.
\<close>

record Region =
  name :: string
  xinner_ind :: int
  xouter_ind :: int
  nx :: int
  ylower_ind :: int
  yupper_ind :: int
  ny :: int
  connection_inner_x :: "string option"
  connection_outer_x :: "string option"
  connection_lower_y :: "string option"
  connection_upper_y :: "string option"
  geometry :: "extents option"

text \<open>
  The slicing methods return the dictionary \<open>{self.xcoord: slice(a, b),
  self.ycoord: slice(c, d)}\<close>, modelled as the pair of the two pairs of bounds
  \<open>((a, b), (c, d))\<close>; reading \<open>self.xcoord\<close> on a Region made without a
  dataset raises \<open>AttributeError\<close>.
\<close>

type_synonym bounds = "int \<times> int"

definition get_slices :: "Region \<Rightarrow> int \<Rightarrow> int \<Rightarrow> error + (bounds \<times> bounds)" where
  "get_slices self mxg myg =
    (let xi = xinner_ind self;
         xi = (if connection_inner_x self \<noteq> None then xi - mxg else xi);
         xo = xouter_ind self;
         xi = (if connection_outer_x self \<noteq> None then xi + mxg else xi);
         yl = ylower_ind self;
         yl = (if connection_lower_y self \<noteq> None then yl - myg else yl);
         yu = yupper_ind self;
         yu = (if connection_upper_y self \<noteq> None then yu + myg else yu)
     in case geometry self of
          None \<Rightarrow> Inl AttributeError
        | Some c \<Rightarrow> Inr ((xi, xo), (yl, yu)))"

definition get_inner_guards_slices :: "Region \<Rightarrow> int \<Rightarrow> int \<Rightarrow> error + (bounds \<times> bounds)" where
  "get_inner_guards_slices self mxg myg =
    (let ylower = ylower_ind self;
         ylower = (if connection_lower_y self \<noteq> None then ylower - myg else ylower);
         yupper = yupper_ind self;
         yupper = (if connection_upper_y self \<noteq> None then yupper + myg else yupper)
     in case geometry self of
          None \<Rightarrow> Inl AttributeError
        | Some c \<Rightarrow> Inr ((xinner_ind self - mxg, xinner_ind self), (ylower, yupper)))"

definition get_outer_guards_slices :: "Region \<Rightarrow> int \<Rightarrow> int \<Rightarrow> error + (bounds \<times> bounds)" where
  "get_outer_guards_slices self mxg myg =
    (let ylower = ylower_ind self;
         ylower = (if connection_lower_y self \<noteq> None then ylower - myg else ylower);
         yupper = yupper_ind self;
         yupper = (if connection_upper_y self \<noteq> None then yupper + myg else yupper)
     in case geometry self of
          None \<Rightarrow> Inl AttributeError
        | Some c \<Rightarrow> Inr ((xouter_ind self, xouter_ind self + mxg), (ylower, yupper)))"

definition get_lower_guards_slices :: "Region \<Rightarrow> int \<Rightarrow> int \<Rightarrow> error + (bounds \<times> bounds)" where
  "get_lower_guards_slices self myg mxg =
    (let xinner = xinner_ind self;
         xinner = (if connection_inner_x self \<noteq> None then xinner - mxg else xinner);
         xouter = xouter_ind self;
         xouter = (if connection_outer_x self \<noteq> None then xouter + mxg else xouter)
     in case geometry self of
          None \<Rightarrow> Inl AttributeError
        | Some c \<Rightarrow> Inr ((xinner, xouter), (ylower_ind self - myg, ylower_ind self)))"

definition get_upper_guards_slices :: "Region \<Rightarrow> int \<Rightarrow> int \<Rightarrow> error + (bounds \<times> bounds)" where
  "get_upper_guards_slices self myg mxg =
    (let xinner = xinner_ind self;
         xinner = (if connection_inner_x self \<noteq> None then xinner - mxg else xinner);
         xouter = xouter_ind self;
         xouter = (if connection_outer_x self \<noteq> None then xouter + mxg else xouter)
     in case geometry self of
          None \<Rightarrow> Inl AttributeError
        | Some c \<Rightarrow> Inr ((xinner, xouter), (yupper_ind self, yupper_ind self + myg)))"

subsection \<open>Equality of Regions\<close>

text \<open>
  \<open>vars(self)\<close> is the dictionary of the attributes of a Region; the values are
  strings, integers, floats or \<open>None\<close>.
\<close>

datatype attr = AStr string | AInt int | AReal real | ANone

fun opt_attr :: "string option \<Rightarrow> attr" where
  "opt_attr None = ANone"
| "opt_attr (Some s) = AStr s"

definition vars :: "Region \<Rightarrow> (string \<rightharpoonup> attr)" where
  "vars self = map_of
    ([(''name'', AStr (name self)),
      (''xinner_ind'', AInt (xinner_ind self)),
      (''xouter_ind'', AInt (xouter_ind self)),
      (''nx'', AInt (Region.nx self)),
      (''ylower_ind'', AInt (ylower_ind self)),
      (''yupper_ind'', AInt (yupper_ind self)),
      (''ny'', AInt (Region.ny self)),
      (''connection_inner_x'', opt_attr (connection_inner_x self)),
      (''connection_outer_x'', opt_attr (connection_outer_x self)),
      (''connection_lower_y'', opt_attr (connection_lower_y self)),
      (''connection_upper_y'', opt_attr (connection_upper_y self))]
     @ (case geometry self of
          None \<Rightarrow> []
        | Some c \<Rightarrow>
            [(''xcoord'', AStr (xcoord c)),
             (''ycoord'', AStr (ycoord c)),
             (''xinner'', AReal (xinner c)),
             (''xouter'', AReal (xouter c)),
             (''ylower'', AReal (ylower c)),
             (''yupper'', AReal (yupper c))]))"

text \<open>
  The right operand of \<open>==\<close> is a Region or any other Python value; the result of
  \<open>__eq__\<close> is a truth value or the constant \<open>NotImplemented\<close>.
\<close>

datatype 'a pyobj = RegionObj Region | NotRegion 'a

datatype eq_result = NotImplemented | Bool bool

definition Region_eq :: "Region \<Rightarrow> 'a pyobj \<Rightarrow> eq_result" where
  "Region_eq self other =
    (case other of
       NotRegion v \<Rightarrow> NotImplemented
     | RegionObj r \<Rightarrow> Bool (vars self = vars r))"

section \<open>Grid metadata and the topology classifier\<close>

text \<open>
  The entries of \<open>ds.metadata\<close> that the region code reads.
  \<open>keep_xboundaries\<close> and \<open>keep_yboundaries\<close> are 1 or 0.
\<close>

record metadata =
  ixseps1 :: int
  ixseps2 :: int
  jyseps1_1 :: int
  jyseps2_1 :: int
  jyseps1_2 :: int
  jyseps2_2 :: int
  ny_inner :: int
  nx :: int
  ny :: int
  MXG :: int
  MYG :: int
  keep_xboundaries :: int
  keep_yboundaries :: int
  bout_xdim :: string
  bout_ydim :: string

definition in_range :: "int \<Rightarrow> int \<Rightarrow> int \<Rightarrow> int" where
  "in_range val lower upper =
    (if val < lower then lower else if val > upper then upper else val)"

definition order_vars :: "int \<Rightarrow> int \<Rightarrow> int \<times> int" where
  "order_vars lower upper = (if upper < lower then (upper, lower) else (lower, upper))"

definition get_topology :: "metadata \<Rightarrow> error + string" where
  "get_topology md =
    (let jys11 = jyseps1_1 md;
         jys21 = jyseps2_1 md;
         nyinner = ny_inner md;
         jys12 = jyseps1_2 md;
         jys22 = jyseps2_2 md;
         ny = metadata.ny md;
         ixs1 = ixseps1 md;
         ixs2 = ixseps2 md;
         nx = metadata.nx md
     in if jys21 = jys12 then
          (if jys11 \<le> 0 \<and> jys22 \<ge> ny - 1 then
             (let ix = min ixs1 ixs2
              in if ix \<ge> nx - 1 then Inr ''core''
                 else if ix \<le> 0 then Inr ''sol''
                 else Inr ''limiter'')
           else Inr ''single-null'')
        else if jys11 = jys21 \<and> jys12 = jys22 then
          (if jys11 < nyinner - 1 \<and> jys22 > nyinner then Inr ''xpoint''
           else Inl UnsupportedTopology)
        else if ixs1 = ixs2 then
          (if jys21 < nyinner - 1 \<and> jys12 > nyinner then Inr ''connected-double-null''
           else Inl UnsupportedTopology)
        else Inr ''disconnected-double-null'')"

section \<open>The Region Builder\<close>

text \<open>
  A dataset as the builder reads it: the metadata and the two grid spacing fields
  \<open>ds['dx']\<close> and \<open>ds['dy']\<close>, two-dimensional arrays indexed first by x and
  then by y (a list of columns).
\<close>

record dataset =
  metadata :: metadata
  dx :: "real list list"
  dy :: "real list list"

text \<open>\<open>a.isel(y=j)\<close> for an integer \<open>j\<close>: the row \<open>j\<close> of every column.\<close>

fun isel_row :: "'a list list \<Rightarrow> int \<Rightarrow> error + 'a list" where
  "isel_row [] j = Inr []"
| "isel_row (c # cs) j =
    bind_err (py_index c j) (\<lambda>v. bind_err (isel_row cs j) (\<lambda>vs. Inr (v # vs)))"

fun cumsum_from :: "real \<Rightarrow> real list \<Rightarrow> real list" where
  "cumsum_from acc [] = []"
| "cumsum_from acc (v # vs) = (acc + v) # cumsum_from (acc + v) vs"

definition cumsum :: "real list \<Rightarrow> real list" where
  "cumsum vs = cumsum_from 0 vs"

text \<open>
  \<open>Region.__init__\<close> with the four index bounds; the four connections keep their
  default \<open>None\<close>, as in every call of the builder.  With a dataset the coordinate
  extents are read from the cumulative sums of \<open>dx\<close> along the row
  \<open>ylower_ind\<close> and of \<open>dy\<close> along the column \<open>xinner_ind\<close>; an index
  outside these arrays raises \<open>IndexError\<close>.
\<close>

definition Region_init ::
  "string \<Rightarrow> dataset option \<Rightarrow> int \<Rightarrow> int \<Rightarrow> int \<Rightarrow> int \<Rightarrow> error + Region" where
  "Region_init nm ds xinner_i xouter_i ylower_i yupper_i =
    (let self = \<lparr>name = nm, xinner_ind = xinner_i, xouter_ind = xouter_i,
                  nx = xouter_i - xinner_i,
                  ylower_ind = ylower_i, yupper_ind = yupper_i,
                  ny = yupper_i - ylower_i,
                  connection_inner_x = None, connection_outer_x = None,
                  connection_lower_y = None, connection_upper_y = None,
                  geometry = None\<rparr>
     in case ds of
          None \<Rightarrow> Inr self
        | Some d \<Rightarrow>
            bind_err (isel_row (dx d) ylower_i) (\<lambda>dx1.
            bind_err (py_index (cumsum dx1) xinner_i) (\<lambda>ci.
            bind_err (py_index dx1 xinner_i) (\<lambda>di.
            bind_err (py_index (cumsum dx1) (xouter_i - 1)) (\<lambda>co.
            bind_err (py_index dx1 (xouter_i - 1)) (\<lambda>do.
            bind_err (py_index (dy d) xinner_i) (\<lambda>dy1.
            bind_err (py_index (cumsum dy1) ylower_i) (\<lambda>cl.
            bind_err (py_index dy1 ylower_i) (\<lambda>dl.
            bind_err (py_index (cumsum dy1) (yupper_i - 1)) (\<lambda>cu.
            bind_err (py_index dy1 (yupper_i - 1)) (\<lambda>du.
              Inr (self\<lparr>geometry := Some
                \<lparr>xcoord = bout_xdim (metadata d), ycoord = bout_ydim (metadata d),
                  xinner = ci - di / 2, xouter = co + do / 2,
                  ylower = cl - dl / 2, yupper = cu + du / 2\<rparr>\<rparr>))))))))))))"

text \<open>
  The registry \<open>regions\<close> is an \<open>OrderedDict\<close>: an association list in
  insertion order; \<open>regions[k] = v\<close> replaces the value of a key that is present
  and appends a new key, which is what \<open>AList.update\<close> does.
\<close>

type_synonym registry = "(string \<times> Region) list"

definition create_connection_x :: "registry \<Rightarrow> string \<Rightarrow> string \<Rightarrow> error + registry" where
  "create_connection_x regions inner outer =
    (case map_of regions inner of
       None \<Rightarrow> Inl KeyError
     | Some r \<Rightarrow>
         (let regions = AList.update inner (r\<lparr>connection_outer_x := Some outer\<rparr>) regions
          in case map_of regions outer of
               None \<Rightarrow> Inl KeyError
             | Some s \<Rightarrow>
                 Inr (AList.update outer (s\<lparr>connection_inner_x := Some inner\<rparr>) regions)))"

definition create_connection_y :: "registry \<Rightarrow> string \<Rightarrow> string \<Rightarrow> error + registry" where
  "create_connection_y regions lower upper =
    (case map_of regions lower of
       None \<Rightarrow> Inl KeyError
     | Some r \<Rightarrow>
         (let regions = AList.update lower (r\<lparr>connection_upper_y := Some upper\<rparr>) regions
          in case map_of regions upper of
               None \<Rightarrow> Inl KeyError
             | Some s \<Rightarrow>
                 Inr (AList.update upper (s\<lparr>connection_lower_y := Some lower\<rparr>) regions)))"

text \<open>
  The local variables of \<open>_create_regions_toroidal\<close> once the sizes are made
  sensible and adjusted for the boundary cells (the source up to the line
  \<open>ny += 2*ybndry + 2*ybndry_upper\<close>).
\<close>

record adjusted =
  ixs1 :: int
  ixs2 :: int
  nx :: int
  jys11 :: int
  jys21 :: int
  nyinner :: int
  jys12 :: int
  jys22 :: int
  ny :: int
  ybndry :: int

definition adjust :: "metadata \<Rightarrow> adjusted" where
  "adjust md =
    (let ixs1 = ixseps1 md;
         ixs2 = ixseps2 md;
         nx = metadata.nx md;
         jys11 = jyseps1_1 md;
         jys21 = jyseps2_1 md;
         nyinner = ny_inner md;
         jys12 = jyseps1_2 md;
         jys22 = jyseps2_2 md;
         ny = metadata.ny md;
         mxg = MXG md;
         myg = MYG md;
         ybndry = keep_yboundaries md * myg;
         ybndry_upper = (if jys21 = jys12 then 0 else ybndry);
         ixs1 = in_range ixs1 0 nx;
         ixs2 = in_range ixs2 0 nx;
         (ixs1, ixs2) = order_vars ixs1 ixs2;
         jys11 = in_range jys11 0 (ny - 1);
         jys21 = in_range jys21 0 (ny - 1);
         jys12 = in_range jys12 0 (ny - 1);
         (jys21, jys12) = order_vars jys21 jys12;
         nyinner = in_range nyinner (jys21 + 1) (jys12 + 1);
         jys22 = in_range jys22 0 (ny - 1);
         (ixs1, ixs2, nx) =
           (if keep_xboundaries md = 0 then (ixs1 - mxg, ixs2 - mxg, nx - 2 * mxg)
            else (ixs1, ixs2, nx));
         jys11 = jys11 + ybndry;
         jys21 = jys21 + ybndry;
         nyinner = nyinner + (ybndry + ybndry_upper);
         jys12 = jys12 + (ybndry + 2 * ybndry_upper);
         jys22 = jys22 + (ybndry + 2 * ybndry_upper);
         ny = ny + (2 * ybndry + 2 * ybndry_upper)
     in \<lparr>ixs1 = ixs1, ixs2 = ixs2, nx = nx, jys11 = jys11, jys21 = jys21,
         nyinner = nyinner, jys12 = jys12, jys22 = jys22, ny = ny, ybndry = ybndry\<rparr>)"

text \<open>
  The statements of each topology's branch, in the order of the source: first the
  assignments \<open>regions[key] = Region(name=..., ds=ds, xinner_ind=..., xouter_ind=...,
  ylower_ind=..., yupper_ind=...)\<close>, listed as
  \<open>(key, name, xinner_ind, xouter_ind, ylower_ind, yupper_ind)\<close>, then the calls of
  \<open>_create_connection_x\<close> and \<open>_create_connection_y\<close>.  A topology that is
  none of the seven raises \<open>NotImplementedError\<close>.
\<close>

type_synonym region_call = "string \<times> string \<times> int \<times> int \<times> int \<times> int"

datatype connection_call = ConnectX string string | ConnectY string string

definition region_calls :: "string \<Rightarrow> adjusted \<Rightarrow> error + region_call list" where
  "region_calls topology a =
    (let ixs1 = adjusted.ixs1 a; ixs2 = adjusted.ixs2 a; nx = adjusted.nx a;
         jys11 = adjusted.jys11 a; jys21 = adjusted.jys21 a; nyinner = adjusted.nyinner a;
         jys12 = adjusted.jys12 a; jys22 = adjusted.jys22 a; ny = adjusted.ny a;
         ybndry = adjusted.ybndry a
     in if topology = ''disconnected-double-null'' then Inr
          [(''lower_inner_PFR'', ''lower_inner_PFR'', 0, ixs1, 0, jys11 + 1),
           (''lower_inner_intersep'', ''lower_inner_intersep'', ixs1, ixs2, 0, jys11 + 1),
           (''lower_inner_SOL'', ''lower_inner_SOL'', ixs2, nx, 0, jys11 + 1),
           (''inner_core'', ''inner_core'', 0, ixs1, jys11 + 1, jys21 + 1),
           (''inner_intersep'', ''inner_intersep'', ixs1, ixs2, jys11 + 1, jys21 + 1),
           (''inner_SOL'', ''inner_SOL'', ixs2, nx, jys11 + 1, jys21 + 1),
           (''upper_inner_PFR'', ''upper_inner_PFR'', 0, ixs1, jys21 + 1, nyinner),
           (''upper_inner_intersep'', ''upper_inner_intersep'', ixs1, ixs2, jys21 + 1, nyinner),
           (''upper_inner_SOL'', ''upper_inner_SOL'', ixs2, nx, jys21 + 1, nyinner),
           (''upper_outer_PFR'', ''upper_outer_PFR'', 0, ixs1, nyinner, jys12 + 1),
           (''upper_outer_intersep'', ''upper_outer_intersep'', ixs1, ixs2, nyinner, jys12 + 1),
           (''upper_outer_SOL'', ''upper_outer_SOL'', ixs2, nx, nyinner, jys12 + 1),
           (''outer_core'', ''outer_core'', 0, ixs1, jys12 + 1, jys22 + 1),
           (''outer_intersep'', ''outer_intersep'', ixs1, ixs2, jys12 + 1, jys22 + 1),
           (''outer_SOL'', ''outer_SOL'', ixs2, nx, jys12 + 1, jys22 + 1),
           (''lower_outer_PFR'', ''lower_outer_PFR'', 0, ixs1, jys22 + 1, ny),
           (''lower_outer_intersep'', ''lower_outer_intersep'', ixs1, ixs2, jys22 + 1, ny),
           (''lower_outer_SOL'', ''lower_outer_SOL'', ixs2, nx, jys22 + 1, ny)]
        else if topology = ''connected-double-null'' then Inr
          [(''lower_inner_PFR'', ''lower_inner_PFR'', 0, ixs1, 0, jys11 + 1),
           (''lower_inner_SOL'', ''lower_inner_SOL'', ixs2, nx, 0, jys11 + 1),
           (''inner_core'', ''inner_core'', 0, ixs1, jys11 + 1, jys21 + 1),
           (''inner_SOL'', ''inner_SOL'', ixs2, nx, jys11 + 1, jys21 + 1),
           (''upper_inner_PFR'', ''upper_inner_PFR'', 0, ixs1, jys21 + 1, nyinner),
           (''upper_inner_SOL'', ''upper_inner_SOL'', ixs2, nx, jys21 + 1, nyinner),
           (''upper_outer_PFR'', ''upper_outer_PFR'', 0, ixs1, nyinner, jys12 + 1),
           (''upper_outer_SOL'', ''upper_outer_SOL'', ixs2, nx, nyinner, jys12 + 1),
           (''outer_core'', ''outer_core'', 0, ixs1, jys12 + 1, jys22 + 1),
           (''outer_SOL'', ''outer_SOL'', ixs2, nx, jys12 + 1, jys22 + 1),
           (''lower_outer_PFR'', ''lower_outer_PFR'', 0, ixs1, jys22 + 1, ny),
           (''lower_outer_SOL'', ''lower_outer_SOL'', ixs2, nx, jys22 + 1, ny)]
        else if topology = ''single-null'' then Inr
          [(''inner_PFR'', ''inner_PFR'', 0, ixs1, 0, jys11 + 1),
           (''inner_SOL'', ''inner_SOL'', ixs1, nx, 0, jys11 + 1),
           (''core'', ''core'', 0, ixs1, jys11 + 1, jys22 + 1),
           (''SOL'', ''SOL'', ixs1, nx, jys11 + 1, jys22 + 1),
           (''outer_PFR'', ''lower_PFR'', 0, ixs1, jys22 + 1, ny),
           (''outer_SOL'', ''lower_SOL'', ixs1, nx, jys22 + 1, ny)]
        else if topology = ''limiter'' then Inr
          [(''core'', ''core'', 0, ixs1, ybndry, ny - ybndry),
           (''SOL'', ''SOL'', ixs1, nx, 0, ny)]
        else if topology = ''core'' then Inr
          [(''core'', ''core'', 0, nx, ybndry, ny - ybndry)]
        else if topology = ''sol'' then Inr
          [(''SOL'', ''SOL'', 0, nx, 0, ny)]
        else if topology = ''xpoint'' then Inr
          [(''lower_inner_PFR'', ''lower_inner_PFR'', 0, ixs1, 0, jys11 + 1),
           (''lower_inner_SOL'', ''lower_inner_SOL'', ixs1, nx, 0, jys11 + 1),
           (''upper_inner_PFR'', ''upper_inner_PFR'', 0, ixs1, jys11 + 1, nyinner),
           (''upper_inner_SOL'', ''upper_inner_SOL'', ixs1, nx, jys11 + 1, nyinner),
           (''upper_outer_PFR'', ''upper_outer_PFR'', 0, ixs1, nyinner, jys22 + 1),
           (''upper_outer_SOL'', ''upper_outer_SOL'', ixs1, nx, nyinner, jys22 + 1),
           (''lower_outer_PFR'', ''lower_outer_PFR'', 0, ixs1, jys22 + 1, ny),
           (''lower_outer_SOL'', ''lower_outer_SOL'', ixs1, nx, jys22 + 1, ny)]
        else Inl NotImplementedError)"

definition connection_calls :: "string \<Rightarrow> connection_call list" where
  "connection_calls topology =
    (if topology = ''disconnected-double-null'' then
       [ConnectX ''lower_inner_PFR'' ''lower_inner_intersep'',
        ConnectX ''lower_inner_intersep'' ''lower_inner_SOL'',
        ConnectX ''inner_core'' ''inner_intersep'',
        ConnectX ''inner_intersep'' ''inner_SOL'',
        ConnectX ''upper_inner_PFR'' ''upper_inner_intersep'',
        ConnectX ''upper_inner_intersep'' ''upper_inner_SOL'',
        ConnectX ''upper_outer_PFR'' ''upper_outer_intersep'',
        ConnectX ''upper_outer_intersep'' ''upper_outer_SOL'',
        ConnectX ''outer_core'' ''outer_intersep'',
        ConnectX ''outer_intersep'' ''outer_SOL'',
        ConnectX ''lower_outer_PFR'' ''lower_outer_intersep'',
        ConnectX ''lower_outer_intersep'' ''lower_outer_SOL'',
        ConnectY ''lower_inner_PFR'' ''lower_outer_PFR'',
        ConnectY ''lower_inner_intersep'' ''inner_intersep'',
        ConnectY ''lower_inner_SOL'' ''inner_SOL'',
        ConnectY ''inner_core'' ''outer_core'',
        ConnectY ''outer_core'' ''inner_core'',
        ConnectY ''inner_intersep'' ''outer_intersep'',
        ConnectY ''inner_SOL'' ''upper_inner_SOL'',
        ConnectY ''upper_outer_intersep'' ''upper_inner_intersep'',
        ConnectY ''upper_outer_PFR'' ''upper_inner_PFR'',
        ConnectY ''upper_outer_SOL'' ''outer_SOL'',
        ConnectY ''outer_intersep'' ''lower_outer_intersep'',
        ConnectY ''outer_SOL'' ''lower_outer_SOL'']
     else if topology = ''connected-double-null'' then
       [ConnectX ''lower_inner_PFR'' ''lower_inner_SOL'',
        ConnectX ''inner_core'' ''inner_SOL'',
        ConnectX ''upper_inner_PFR'' ''upper_inner_SOL'',
        ConnectX ''upper_outer_PFR'' ''upper_outer_SOL'',
        ConnectX ''outer_core'' ''outer_SOL'',
        ConnectX ''lower_outer_PFR'' ''lower_outer_SOL'',
        ConnectY ''lower_inner_PFR'' ''lower_outer_PFR'',
        ConnectY ''lower_inner_SOL'' ''inner_SOL'',
        ConnectY ''inner_core'' ''outer_core'',
        ConnectY ''outer_core'' ''inner_core'',
        ConnectY ''inner_SOL'' ''upper_inner_SOL'',
        ConnectY ''upper_outer_PFR'' ''upper_inner_PFR'',
        ConnectY ''upper_outer_SOL'' ''outer_SOL'',
        ConnectY ''outer_SOL'' ''lower_outer_SOL'']
     else if topology = ''single-null'' then
       [ConnectX ''inner_PFR'' ''inner_SOL'',
        ConnectX ''core'' ''SOL'',
        ConnectX ''outer_PFR'' ''outer_SOL'',
        ConnectY ''inner_PFR'' ''outer_PFR'',
        ConnectY ''inner_SOL'' ''SOL'',
        ConnectY ''core'' ''core'',
        ConnectY ''SOL'' ''outer_SOL'']
     else if topology = ''limiter'' then
       [ConnectX ''core'' ''SOL'',
        ConnectY ''core'' ''core'']
     else if topology = ''core'' then
       [ConnectY ''core'' ''core'']
     else if topology = ''sol'' then
       []
     else if topology = ''xpoint'' then
       [ConnectX ''lower_inner_PFR'' ''lower_inner_SOL'',
        ConnectX ''upper_inner_PFR'' ''upper_inner_SOL'',
        ConnectX ''upper_outer_PFR'' ''upper_outer_SOL'',
        ConnectX ''lower_outer_PFR'' ''lower_outer_SOL'',
        ConnectY ''lower_inner_PFR'' ''lower_outer_PFR'',
        ConnectY ''lower_inner_SOL'' ''upper_inner_SOL'',
        ConnectY ''upper_outer_PFR'' ''upper_inner_PFR'',
        ConnectY ''upper_outer_SOL'' ''lower_outer_SOL'']
     else [])"

fun construct :: "dataset \<Rightarrow> region_call list \<Rightarrow> registry \<Rightarrow> error + registry" where
  "construct ds [] regions = Inr regions"
| "construct ds ((key, nm, xi, xo, yl, yu) # calls) regions =
    bind_err (Region_init nm (Some ds) xi xo yl yu)
      (\<lambda>r. construct ds calls (AList.update key r regions))"

fun connect :: "connection_call list \<Rightarrow> registry \<Rightarrow> error + registry" where
  "connect [] regions = Inr regions"
| "connect (ConnectX inner outer # calls) regions =
    bind_err (create_connection_x regions inner outer) (connect calls)"
| "connect (ConnectY lower upper # calls) regions =
    bind_err (create_connection_y regions lower upper) (connect calls)"

text \<open>
  \<open>_create_regions_toroidal\<close>; the result is the registry that the source attaches
  to every variable of the dataset.
\<close>

definition create_regions_toroidal :: "dataset \<Rightarrow> error + registry" where
  "create_regions_toroidal ds =
    bind_err (get_topology (metadata ds)) (\<lambda>topology.
    bind_err (region_calls topology (adjust (metadata ds))) (\<lambda>calls.
    bind_err (construct ds calls []) (\<lambda>regions.
      connect (connection_calls topology) regions)))"

section \<open>Arrays and the Guard-Cell Stitcher\<close>

text \<open>
  The values of a two-dimensional array, indexed first by x and then by y: a list of
  columns, with the size of the y axis kept beside it (an array may have no column).
  \<open>da\<close>, the array of one region, carries that region in its attributes;
  \<open>da_global\<close> carries the registry and the metadata.  \<open>coords\<close> are
  the names of the coordinates attached to the array.  The coordinate values are not
  modelled: \<open>assign_coords\<close> checks the length of a new coordinate, and the exact
  join of \<open>xr.concat\<close> the sizes along the other axis.
\<close>

record 'a DataArray =
  data :: "'a list list"
  ysize :: nat
  region :: Region
  coords :: "string list"

record 'a GlobalArray =
  global_data :: "'a list list"
  global_ysize :: nat
  regions :: registry
  global_metadata :: metadata
  global_coords :: "string list"

text \<open>\<open>da.isel(x=slice)\<close> and \<open>da.isel(y=slice)\<close>.\<close>

definition isel_x :: "'a DataArray \<Rightarrow> slice \<Rightarrow> 'a DataArray" where
  "isel_x da s = da\<lparr>data := py_slice s (data da)\<rparr>"

definition isel_y :: "'a DataArray \<Rightarrow> slice \<Rightarrow> 'a DataArray" where
  "isel_y da s = da\<lparr>data := map (py_slice s) (data da), ysize := slice_len s (ysize da)\<rparr>"

text \<open>
  \<open>xr.concat((a, b), dim, join='exact')\<close> along x and along y; the attributes are
  those of the first array.
\<close>

definition concat_x :: "'a DataArray \<Rightarrow> 'a DataArray \<Rightarrow> error + 'a DataArray" where
  "concat_x a b =
    (if ysize a = ysize b then Inr (a\<lparr>data := data a @ data b\<rparr>) else Inl ConcatError)"

definition concat_y :: "'a DataArray \<Rightarrow> 'a DataArray \<Rightarrow> error + 'a DataArray" where
  "concat_y a b =
    (if length (data a) = length (data b)
     then Inr (a\<lparr>data := map2 (@) (data a) (data b), ysize := ysize a + ysize b\<rparr>)
     else Inl ConcatError)"

text \<open>
  \<open>da.assign_coords(x=new_xcoord, y=new_ycoord)\<close>, given the lengths of the two new
  coordinates.
\<close>

definition assign_coords :: "'a DataArray \<Rightarrow> nat \<Rightarrow> nat \<Rightarrow> error + 'a DataArray" where
  "assign_coords da nxc nyc =
    (if nxc = length (data da) \<and> nyc = ysize da then Inr da else Inl AssignCoordsError)"

text \<open>
  Modelled from the spec: \<open>da_global.bout.from_region(name, with_guards=0)\<close>, whose
  source is not in the repository files at hand.  The spec's fetch step: extract the
  connected neighbour region's interior (zero guards) from \<open>da_global\<close>, the
  interior being the region's index bounds with no guard adjustment.  Looking up the
  name \<open>None\<close> or a name that is not in the registry raises \<open>KeyError\<close>.
\<close>

definition from_region_interior :: "'a GlobalArray \<Rightarrow> string option \<Rightarrow> error + 'a DataArray" where
  "from_region_interior da_global nm =
    (case nm of
       None \<Rightarrow> Inl KeyError
     | Some k \<Rightarrow>
        (case map_of (regions da_global) k of
           None \<Rightarrow> Inl KeyError
         | Some r \<Rightarrow>
            (let xslice = Slice (Some (xinner_ind r)) (Some (xouter_ind r));
                 yslice = Slice (Some (ylower_ind r)) (Some (yupper_ind r))
             in Inr \<lparr>data = map (py_slice yslice) (py_slice xslice (global_data da_global)),
                     ysize = slice_len yslice (global_ysize da_global),
                     region = r,
                     coords = global_coords da_global\<rparr>)))"

definition concat_inner_guards ::
  "'a DataArray \<Rightarrow> 'a GlobalArray \<Rightarrow> int \<Rightarrow> error + 'a DataArray" where
  "concat_inner_guards da da_global mxg =
    (if mxg \<le> 0 then Inr da
     else
      (let myg_da = MYG (global_metadata da_global);
           keep_yb = keep_yboundaries (global_metadata da_global);
           xcoord = bout_xdim (global_metadata da_global)
       in bind_err (from_region_interior da_global (connection_inner_x (region da))) (\<lambda>da_inner.
          let da_inner =
                (if myg_da > 0 \<and> keep_yb \<noteq> 0 \<and> connection_lower_y (region da) \<noteq> None
                    \<and> connection_lower_y (region da_inner) = None
                 then isel_y da_inner (Slice (Some myg_da) None) else da_inner);
              da_inner =
                (if myg_da > 0 \<and> keep_yb \<noteq> 0 \<and> connection_upper_y (region da) \<noteq> None
                    \<and> connection_upper_y (region da_inner) = None
                 then isel_y da_inner (Slice None (Some (- myg_da))) else da_inner);
              da_inner = isel_x da_inner (Slice (Some (- mxg)) None)
          in bind_err
               (if myg_da > 0 \<and> keep_yb \<noteq> 0 \<and> connection_lower_y (region da) = None
                   \<and> connection_lower_y (region da_inner) \<noteq> None
                then bind_err (from_region_interior da_global (connection_lower_y (region da_inner)))
                  (\<lambda>da_inner_lower.
                    let da_inner_lower = isel_y (isel_x da_inner_lower (Slice (Some (- mxg)) None))
                                       (Slice (Some (- myg_da)) None);
                        save_region = region da_inner
                    in bind_err (concat_y da_inner_lower da_inner)
                         (\<lambda>c. Inr (c\<lparr>region := save_region\<rparr>)))
                else Inr da_inner) (\<lambda>da_inner.
             bind_err
               (if myg_da > 0 \<and> keep_yb \<noteq> 0 \<and> connection_upper_y (region da) = None
                   \<and> connection_upper_y (region da_inner) \<noteq> None
                then bind_err (from_region_interior da_global (connection_upper_y (region da_inner)))
                  (\<lambda>da_inner_upper.
                    let da_inner_upper = isel_y (isel_x da_inner_upper (Slice (Some (- mxg)) None))
                                       (Slice None (Some myg_da))
                    in concat_y da_inner da_inner_upper)
                else Inr da_inner) (\<lambda>da_inner.
             bind_err
               (if xcoord \<in> set (coords da)
                then bind_err (get_inner_guards_slices (region da) mxg 0) (\<lambda>(xs, ys).
                       assign_coords da_inner
                         (slice_len (Slice (Some (fst xs)) (Some (snd xs)))
                            (length (global_data da_global)))
                         (slice_len (Slice (Some (fst ys)) (Some (snd ys)))
                            (global_ysize da_global)))
                else Inr da_inner) (\<lambda>da_inner.
             bind_err (concat_x da_inner da) (\<lambda>c. Inr (c\<lparr>region := region da\<rparr>))))))))"

definition concat_outer_guards ::
  "'a DataArray \<Rightarrow> 'a GlobalArray \<Rightarrow> int \<Rightarrow> error + 'a DataArray" where
  "concat_outer_guards da da_global mxg =
    (if mxg \<le> 0 then Inr da
     else
      (let myg_da = MYG (global_metadata da_global);
           keep_yb = keep_yboundaries (global_metadata da_global);
           xcoord = bout_xdim (global_metadata da_global)
       in bind_err (from_region_interior da_global (connection_outer_x (region da))) (\<lambda>da_outer.
          let da_outer =
                (if myg_da > 0 \<and> keep_yb \<noteq> 0 \<and> connection_lower_y (region da) \<noteq> None
                    \<and> connection_lower_y (region da_outer) = None
                 then isel_y da_outer (Slice (Some myg_da) None) else da_outer);
              da_outer =
                (if myg_da > 0 \<and> keep_yb \<noteq> 0 \<and> connection_upper_y (region da) \<noteq> None
                    \<and> connection_upper_y (region da_outer) = None
                 then isel_y da_outer (Slice None (Some (- myg_da))) else da_outer);
              da_outer = isel_x da_outer (Slice None (Some mxg))
          in bind_err
               (if myg_da > 0 \<and> keep_yb \<noteq> 0 \<and> connection_lower_y (region da) = None
                   \<and> connection_lower_y (region da_outer) \<noteq> None
                then bind_err (from_region_interior da_global (connection_lower_y (region da_outer)))
                  (\<lambda>da_outer_lower.
                    let da_outer_lower = isel_y (isel_x da_outer_lower (Slice (Some (- mxg)) None))
                                       (Slice (Some (- myg_da)) None);
                        save_region = region da_outer
                    in bind_err (concat_y da_outer_lower da_outer)
                         (\<lambda>c. Inr (c\<lparr>region := save_region\<rparr>)))
                else Inr da_outer) (\<lambda>da_outer.
             bind_err
               (if myg_da > 0 \<and> keep_yb \<noteq> 0 \<and> connection_upper_y (region da) = None
                   \<and> connection_upper_y (region da_outer) \<noteq> None
                then bind_err (from_region_interior da_global (connection_upper_y (region da_outer)))
                  (\<lambda>da_outer_upper.
                    let da_outer_upper = isel_y (isel_x da_outer_upper (Slice (Some (- mxg)) None))
                                       (Slice None (Some myg_da))
                    in concat_y da_outer da_outer_upper)
                else Inr da_outer) (\<lambda>da_outer.
             bind_err
               (if xcoord \<in> set (coords da)
                then bind_err (get_outer_guards_slices (region da) mxg 0) (\<lambda>(xs, ys).
                       assign_coords da_outer
                         (slice_len (Slice (Some (fst xs)) (Some (snd xs)))
                            (length (global_data da_global)))
                         (slice_len (Slice (Some (fst ys)) (Some (snd ys)))
                            (global_ysize da_global)))
                else Inr da_outer) (\<lambda>da_outer.
             bind_err (concat_x da da_outer) (\<lambda>c. Inr (c\<lparr>region := region da\<rparr>))))))))"

text \<open>
  Modelled from the spec: \<open>da_global.bout.from_region(name, with_guards={xcoord: mxg,
  ycoord: 0})\<close>, whose source is not in the repository files at hand.  The spec's
  data flow: the region is extracted by name and the stitcher is applied for the guard
  cells asked for, here on each x side where the region has a connection; with the
  y width 0 the two y operations return their argument.
\<close>

definition from_region_xguards ::
  "'a GlobalArray \<Rightarrow> string option \<Rightarrow> int \<Rightarrow> error + 'a DataArray" where
  "from_region_xguards da_global nm mxg =
    bind_err (from_region_interior da_global nm) (\<lambda>da.
    bind_err (if connection_inner_x (region da) \<noteq> None
              then concat_inner_guards da da_global mxg else Inr da) (\<lambda>da.
      if connection_outer_x (region da) \<noteq> None
      then concat_outer_guards da da_global mxg else Inr da))"

definition concat_lower_guards ::
  "'a DataArray \<Rightarrow> 'a GlobalArray \<Rightarrow> int \<Rightarrow> int \<Rightarrow> error + 'a DataArray" where
  "concat_lower_guards da da_global mxg myg =
    (if myg \<le> 0 then Inr da
     else
      (let ycoord = bout_ydim (global_metadata da_global)
       in bind_err (from_region_xguards da_global (connection_lower_y (region da)) mxg) (\<lambda>da_lower.
          let da_lower = isel_y da_lower (Slice (Some (- myg)) None)
          in bind_err
               (if ycoord \<in> set (coords da)
                then bind_err (get_lower_guards_slices (region da) myg mxg) (\<lambda>(xs, ys).
                       if fst ys < 0 then Inl MissingBoundaryData
                       else assign_coords da_lower
                         (slice_len (Slice (Some (fst xs)) (Some (snd xs)))
                            (length (global_data da_global)))
                         (slice_len (Slice (Some (fst ys)) (Some (snd ys)))
                            (global_ysize da_global)))
                else Inr da_lower) (\<lambda>da_lower.
             bind_err (concat_y da_lower da) (\<lambda>c. Inr (c\<lparr>region := region da\<rparr>))))))"

definition concat_upper_guards ::
  "'a DataArray \<Rightarrow> 'a GlobalArray \<Rightarrow> int \<Rightarrow> int \<Rightarrow> error + 'a DataArray" where
  "concat_upper_guards da da_global mxg myg =
    (if myg \<le> 0 then Inr da
     else
      (let ycoord = bout_ydim (global_metadata da_global)
       in bind_err (from_region_xguards da_global (connection_upper_y (region da)) mxg) (\<lambda>da_upper.
          let da_upper = isel_y da_upper (Slice None (Some myg))
          in bind_err
               (if ycoord \<in> set (coords da)
                then bind_err (get_upper_guards_slices (region da) myg mxg) (\<lambda>(xs, ys).
                       if snd ys > int (global_ysize da_global) then Inl MissingBoundaryData
                       else assign_coords da_upper
                         (slice_len (Slice (Some (fst xs)) (Some (snd xs)))
                            (length (global_data da_global)))
                         (slice_len (Slice (Some (fst ys)) (Some (snd ys)))
                            (global_ysize da_global)))
                else Inr da_upper) (\<lambda>da_upper.
             bind_err (concat_y da da_upper) (\<lambda>c. Inr (c\<lparr>region := region da\<rparr>))))))"

section \<open>Properties of a registry\<close>

text \<open>
  The index bounds stored in a registry, and those given in the builder's calls of
  \<open>Region\<close>.
\<close>

definition bounds_of :: "registry \<Rightarrow> (string \<times> int \<times> int \<times> int \<times> int) list" where
  "bounds_of regs =
    map (\<lambda>(k, r). (k, xinner_ind r, xouter_ind r, ylower_ind r, yupper_ind r)) regs"















section \<open>Example inputs\<close>

text \<open>Spacing fields of a given shape with every spacing 1.\<close>

definition ones :: "nat \<Rightarrow> nat \<Rightarrow> real list list" where
  "ones n m = replicate n (replicate m 1)"

text \<open>
  A single-null grid of 6 by 14 points with the separatrix at \<open>ixseps1 = 3\<close> and
  the branch cuts at 2 and 10; the same grid with \<open>ixseps1 = 0\<close>; and a grid
  opened without its x-boundary cells.
\<close>

definition md_single_null :: metadata where
  "md_single_null = \<lparr>ixseps1 = 3, ixseps2 = 6, jyseps1_1 = 2, jyseps2_1 = 6,
      jyseps1_2 = 6, jyseps2_2 = 10, ny_inner = 7, nx = 6, ny = 14, MXG = 2, MYG = 2,
      keep_xboundaries = 1, keep_yboundaries = 0, bout_xdim = ''x'',
      bout_ydim = ''theta''\<rparr>"

definition ds_single_null :: dataset where
  "ds_single_null = \<lparr>metadata = md_single_null, dx = ones 6 14, dy = ones 6 14\<rparr>"


definition md_drop_x :: metadata where
  "md_drop_x = \<lparr>ixseps1 = 5, ixseps2 = 12, jyseps1_1 = 2, jyseps2_1 = 6,
      jyseps1_2 = 6, jyseps2_2 = 10, ny_inner = 7, nx = 10, ny = 14, MXG = 2, MYG = 2,
      keep_xboundaries = 0, keep_yboundaries = 0, bout_xdim = ''x'',
      bout_ydim = ''theta''\<rparr>"



definition md_core :: metadata where
  "md_core = \<lparr>ixseps1 = 2, ixseps2 = 2, jyseps1_1 = -1, jyseps2_1 = 1,
      jyseps1_2 = 1, jyseps2_2 = 3, ny_inner = 2, nx = 2, ny = 4, MXG = 0, MYG = 2,
      keep_xboundaries = 1, keep_yboundaries = 0, bout_xdim = ''x'',
      bout_ydim = ''theta''\<rparr>"

definition ds_core :: dataset where
  "ds_core = \<lparr>metadata = md_core, dx = ones 2 4, dy = ones 2 4\<rparr>"

text \<open>
  The global array of the core grid, with the registry that the builder makes for it
  and a given list of coordinate names.
\<close>

definition g_core :: "string list \<Rightarrow> int GlobalArray" where
  "g_core cs = \<lparr>global_data = [[0, 1, 2, 3], [10, 11, 12, 13]],
     global_ysize = 4,
     regions = (case create_regions_toroidal ds_core of Inl e \<Rightarrow> [] | Inr regs \<Rightarrow> regs),
     global_metadata = md_core, global_coords = cs\<rparr>"




text \<open>A region with a connection on both x sides.\<close>

definition region_both_x :: Region where
  "region_both_x = \<lparr>name = ''lower_inner_intersep'', xinner_ind = 3, xouter_ind = 5, nx = 2,
      ylower_ind = 0, yupper_ind = 4, ny = 4,
      connection_inner_x = Some ''lower_inner_PFR'',
      connection_outer_x = Some ''lower_inner_SOL'',
      connection_lower_y = None, connection_upper_y = Some ''inner_intersep'',
      geometry = Some \<lparr>xcoord = ''x'', ycoord = ''theta'', xinner = 3, xouter = 5,
        ylower = 0, yupper = 4\<rparr>\<rparr>"

section \<open>Sequencing\<close>


lemma bind_err_simps [simp]: "bind_err (Inl e) f = Inl e" "bind_err (Inr u) f = f u"
  by (simp_all add: bind_err_def)

section \<open>The topology classifier without an upper X-point\<close>

text \<open>
  C5.  When \<open>jyseps2_1 = jyseps1_2\<close> the classifier never fails, and its answer
  is decided by the tests of the claim read in their order: with
  \<open>jyseps1_1 \<le> 0\<close> and \<open>jyseps2_2 \<ge> ny - 1\<close> it is \<open>core\<close> when
  \<open>min ixseps1 ixseps2 \<ge> nx - 1\<close>, else \<open>sol\<close> when the minimum is
  \<open>\<le> 0\<close>, else \<open>limiter\<close> (and then \<open>0 < min < nx - 1\<close>
  holds); in every remaining case it is \<open>single-null\<close>.
\<close>

theorem get_topology_no_upper_xpoint:
  assumes "jyseps2_1 md = jyseps1_2 md"
  shows "get_topology md =
    Inr (if jyseps1_1 md \<le> 0 \<and> jyseps2_2 md \<ge> metadata.ny md - 1
            \<and> min (ixseps1 md) (ixseps2 md) \<ge> metadata.nx md - 1 then ''core''
         else if jyseps1_1 md \<le> 0 \<and> jyseps2_2 md \<ge> metadata.ny md - 1
            \<and> min (ixseps1 md) (ixseps2 md) \<le> 0 then ''sol''
         else if jyseps1_1 md \<le> 0 \<and> jyseps2_2 md \<ge> metadata.ny md - 1
            \<and> 0 < min (ixseps1 md) (ixseps2 md)
            \<and> min (ixseps1 md) (ixseps2 md) < metadata.nx md - 1 then ''limiter''
         else ''single-null'')"
  using assms unfolding get_topology_def Let_def by auto

theorem get_topology_no_upper_xpoint_witness:
  "get_topology \<lparr>ixseps1 = 3, ixseps2 = 6, jyseps1_1 = -1, jyseps2_1 = 4,
      jyseps1_2 = 4, jyseps2_2 = 7, ny_inner = 4, nx = 6, ny = 8, MXG = 2, MYG = 2,
      keep_xboundaries = 1, keep_yboundaries = 1, bout_xdim = ''x'',
      bout_ydim = ''theta''\<rparr> = Inr ''limiter''"
  using get_topology_no_upper_xpoint
    [of "\<lparr>ixseps1 = 3, ixseps2 = 6, jyseps1_1 = -1, jyseps2_1 = 4,
      jyseps1_2 = 4, jyseps2_2 = 7, ny_inner = 4, nx = 6, ny = 8, MXG = 2, MYG = 2,
      keep_xboundaries = 1, keep_yboundaries = 1, bout_xdim = ''x'',
      bout_ydim = ''theta''\<rparr>"]
  by simp

section \<open>Region slices\<close>

text \<open>
  C2.  The claim asks for the x-slice \<open>[xinner_ind - mxg, xouter_ind + mxg)\<close> of a
  region connected on both x sides.  \<open>get_slices\<close> adds \<open>mxg\<close> to the inner
  bound again where it should add it to the outer bound, as the four guard-slice
  methods do: for the region \<open>[3, 5) \<times> [0, 4)\<close> and the widths 2 and 2 the x-slice
  is \<open>[3, 5)\<close>, not \<open>[1, 7)\<close>.
\<close>

theorem get_slices_both_x_connections:
  "get_slices region_both_x 2 2 = Inr ((3, 5), (0, 6))"
  by code_simp

section \<open>Equality of Regions\<close>

lemma opt_attr_eq: "opt_attr a = opt_attr b \<longleftrightarrow> a = b"
  by (cases a; cases b) auto

lemma vars_basic:
  assumes "vars r = vars s"
  shows "name r = name s" "xinner_ind r = xinner_ind s" "xouter_ind r = xouter_ind s"
    "Region.nx r = Region.nx s" "ylower_ind r = ylower_ind s" "yupper_ind r = yupper_ind s"
    "Region.ny r = Region.ny s" "connection_inner_x r = connection_inner_x s"
    "connection_outer_x r = connection_outer_x s" "connection_lower_y r = connection_lower_y s"
    "connection_upper_y r = connection_upper_y s"
proof -
  have k: "vars r k = vars s k" for k using assms by simp
  show "name r = name s" using k[of "''name''"] by (simp add: vars_def)
  show "xinner_ind r = xinner_ind s" using k[of "''xinner_ind''"] by (simp add: vars_def)
  show "xouter_ind r = xouter_ind s" using k[of "''xouter_ind''"] by (simp add: vars_def)
  show "Region.nx r = Region.nx s" using k[of "''nx''"] by (simp add: vars_def)
  show "ylower_ind r = ylower_ind s" using k[of "''ylower_ind''"] by (simp add: vars_def)
  show "yupper_ind r = yupper_ind s" using k[of "''yupper_ind''"] by (simp add: vars_def)
  show "Region.ny r = Region.ny s" using k[of "''ny''"] by (simp add: vars_def)
  show "connection_inner_x r = connection_inner_x s"
    using k[of "''connection_inner_x''"] by (simp add: vars_def opt_attr_eq)
  show "connection_outer_x r = connection_outer_x s"
    using k[of "''connection_outer_x''"] by (simp add: vars_def opt_attr_eq)
  show "connection_lower_y r = connection_lower_y s"
    using k[of "''connection_lower_y''"] by (simp add: vars_def opt_attr_eq)
  show "connection_upper_y r = connection_upper_y s"
    using k[of "''connection_upper_y''"] by (simp add: vars_def opt_attr_eq)
qed

lemma vars_coords:
  assumes "vars r = vars s"
  shows "geometry r = geometry s"
proof -
  have k: "vars r k = vars s k" for k using assms by simp
  show ?thesis
  proof (cases "geometry r")
    case None
    then show ?thesis using k[of "''xcoord''"]
      by (cases "geometry s") (simp_all add: vars_def)
  next
    case (Some c)
    show ?thesis
    proof (cases "geometry s")
      case None
      then show ?thesis using Some k[of "''xcoord''"] by (simp add: vars_def)
    next
      case (Some d)
      have "xcoord c = xcoord d" using k[of "''xcoord''"] \<open>geometry r = Some c\<close> Some by (simp add: vars_def)
      moreover have "ycoord c = ycoord d" using k[of "''ycoord''"] \<open>geometry r = Some c\<close> Some by (simp add: vars_def)
      moreover have "xinner c = xinner d" using k[of "''xinner''"] \<open>geometry r = Some c\<close> Some by (simp add: vars_def)
      moreover have "xouter c = xouter d" using k[of "''xouter''"] \<open>geometry r = Some c\<close> Some by (simp add: vars_def)
      moreover have "ylower c = ylower d" using k[of "''ylower''"] \<open>geometry r = Some c\<close> Some by (simp add: vars_def)
      moreover have "yupper c = yupper d" using k[of "''yupper''"] \<open>geometry r = Some c\<close> Some by (simp add: vars_def)
      ultimately have "c = d" by simp
      then show ?thesis using \<open>geometry r = Some c\<close> Some by simp
    qed
  qed
qed

text \<open>
  C10.  \<open>__eq__\<close> applied to a Region is true exactly when the name, the four index
  bounds, \<open>nx\<close> and \<open>ny\<close>, the four connections and the coordinate attributes
  (present in both or absent in both, and equal when present) agree; applied to a value
  that is not a Region it is \<open>NotImplemented\<close>.
\<close>

theorem Region_eq_structural:
  "Region_eq r (RegionObj s) =
     Bool (name r = name s \<and> xinner_ind r = xinner_ind s \<and> xouter_ind r = xouter_ind s
        \<and> Region.nx r = Region.nx s \<and> ylower_ind r = ylower_ind s
        \<and> yupper_ind r = yupper_ind s \<and> Region.ny r = Region.ny s
        \<and> connection_inner_x r = connection_inner_x s
        \<and> connection_outer_x r = connection_outer_x s
        \<and> connection_lower_y r = connection_lower_y s
        \<and> connection_upper_y r = connection_upper_y s
        \<and> geometry r = geometry s)
   \<and> Region_eq r (NotRegion v) = NotImplemented"
proof -
  have "vars r = vars s \<longleftrightarrow>
      (name r = name s \<and> xinner_ind r = xinner_ind s \<and> xouter_ind r = xouter_ind s
        \<and> Region.nx r = Region.nx s \<and> ylower_ind r = ylower_ind s
        \<and> yupper_ind r = yupper_ind s \<and> Region.ny r = Region.ny s
        \<and> connection_inner_x r = connection_inner_x s
        \<and> connection_outer_x r = connection_outer_x s
        \<and> connection_lower_y r = connection_lower_y s
        \<and> connection_upper_y r = connection_upper_y s
        \<and> geometry r = geometry s)" (is "?L \<longleftrightarrow> ?R")
  proof
    assume ?L
    from vars_basic[OF this] vars_coords[OF this] show ?R by simp
  next
    assume ?R
    then show ?L unfolding vars_def by simp
  qed
  then show ?thesis by (simp add: Region_eq_def)
qed

section \<open>The adjustment for the boundary cells\<close>

lemma in_range_lower: "l \<le> u \<Longrightarrow> l \<le> in_range v l u"
  by (simp add: in_range_def)

lemma in_range_upper: "l \<le> u \<Longrightarrow> in_range v l u \<le> u"
  by (simp add: in_range_def)

lemma in_range_mono: "l \<le> u \<Longrightarrow> a \<le> b \<Longrightarrow> in_range a l u \<le> in_range b l u"
  by (simp add: in_range_def)







text \<open>
  C6, as the claim states it, fails: without the x-boundary cells \<open>nx\<close> goes down
  by twice the guard width, one width for each side.
\<close>

theorem adjust_nx_counterexample:
  "keep_xboundaries md_drop_x = 0
   \<and> adjusted.nx (adjust md_drop_x) = metadata.nx md_drop_x - 2 * MXG md_drop_x
   \<and> adjusted.nx (adjust md_drop_x) \<noteq> metadata.nx md_drop_x - MXG md_drop_x"
  by code_simp

text \<open>
  C6, amended.  When \<open>keep_xboundaries\<close> is 0, the two separatrix indices, once
  clamped into \<open>[0, nx]\<close> and put in order, each go down by \<open>MXG\<close>, and
  \<open>nx\<close> goes down by \<open>2 * MXG\<close>.
\<close>

theorem adjust_without_xboundaries:
  assumes "keep_xboundaries md = 0"
  shows "adjusted.ixs1 (adjust md) =
           fst (order_vars (in_range (ixseps1 md) 0 (metadata.nx md))
                           (in_range (ixseps2 md) 0 (metadata.nx md))) - MXG md
       \<and> adjusted.ixs2 (adjust md) =
           snd (order_vars (in_range (ixseps1 md) 0 (metadata.nx md))
                           (in_range (ixseps2 md) 0 (metadata.nx md))) - MXG md
       \<and> adjusted.nx (adjust md) = metadata.nx md - 2 * MXG md"
  using assms by (simp add: adjust_def Let_def split_def)

theorem adjust_without_xboundaries_witness:
  "adjusted.ixs1 (adjust md_drop_x) = 3 \<and> adjusted.ixs2 (adjust md_drop_x) = 8
   \<and> adjusted.nx (adjust md_drop_x) = 6"
proof -
  have k: "keep_xboundaries md_drop_x = 0" by code_simp
  have "fst (order_vars (in_range (ixseps1 md_drop_x) 0 (metadata.nx md_drop_x))
                (in_range (ixseps2 md_drop_x) 0 (metadata.nx md_drop_x))) - MXG md_drop_x = 3"
       "snd (order_vars (in_range (ixseps1 md_drop_x) 0 (metadata.nx md_drop_x))
                (in_range (ixseps2 md_drop_x) 0 (metadata.nx md_drop_x))) - MXG md_drop_x = 8"
       "metadata.nx md_drop_x - 2 * MXG md_drop_x = 6"
    by code_simp+
  with adjust_without_xboundaries[OF k] show ?thesis by simp
qed

section \<open>The bounds of the regions the builder makes\<close>



lemma bounds_of_append: "bounds_of (xs @ ys) = bounds_of xs @ bounds_of ys"
  by (simp add: bounds_of_def)












section \<open>Connection symmetry\<close>

text \<open>
  C4.  The claim compares the connection stored in the neighbour with the name of the
  region.  In the single-null registry the region stored under the key
  \<open>outer_PFR\<close> is named \<open>lower_PFR\<close>: its \<open>connection_outer_x\<close> is
  \<open>outer_SOL\<close>, and the \<open>connection_inner_x\<close> of \<open>outer_SOL\<close> is the key
  \<open>outer_PFR\<close>, which is not its name.
\<close>

theorem single_null_outer_PFR_name:
  "map_sum id (\<lambda>regs.
      (map_option name (map_of regs ''outer_PFR''),
       map_option connection_outer_x (map_of regs ''outer_PFR''),
       map_option connection_inner_x (map_of regs ''outer_SOL'')))
     (create_regions_toroidal ds_single_null)
   = Inr (Some ''lower_PFR'', Some (Some ''outer_SOL''), Some (Some ''outer_PFR''))"
  by code_simp

section \<open>Bands and their grids\<close>












section \<open>The partition of the grid\<close>



















section \<open>Regions that are not degenerate\<close>













section \<open>The Guard-Cell Stitcher\<close>





text \<open>
  C8, as the claim states it, fails: for the core grid opened without its y-boundary
  cells the lower guard slice of the region \<open>core\<close> starts at \<open>0 - 2\<close>, and
  on an array that does not carry the y coordinate the lower guard cells are
  concatenated all the same, taken from the upper end of the region itself.
\<close>

theorem concat_lower_guards_without_coordinate_counterexample:
  "map_sum id (\<lambda>rs. map (\<lambda>p. (fst p, ylower_ind (snd p), connection_lower_y (snd p))) rs)
      (create_regions_toroidal ds_core) = Inr [(''core'', 0, Some ''core'')]
   \<and> map_sum id data (bind_err (from_region_interior (g_core []) (Some ''core''))
        (\<lambda>da. concat_lower_guards da (g_core []) 0 2))
     = Inr [[2, 3, 0, 1, 2, 3], [12, 13, 10, 11, 12, 13]]"
  by code_simp

text \<open>
  C8, amended.  For a positive guard width, on an array that carries the y coordinate
  and whose region has its coordinate attributes, once the neighbour is fetched: the
  lower operation raises \<open>MissingBoundaryData\<close> when its guard slice starts below
  0, and the upper operation when its guard slice stops past the y-size of the global
  array.
\<close>

theorem concat_y_guards_missing_boundary:
  assumes "0 < myg" "bout_ydim (global_metadata da_global) \<in> set (coords da)"
    "geometry (region da) \<noteq> None"
  shows "(from_region_xguards da_global (connection_lower_y (region da)) mxg = Inr dl
          \<and> ylower_ind (region da) - myg < 0
          \<longrightarrow> concat_lower_guards da da_global mxg myg = Inl MissingBoundaryData)
       \<and> (from_region_xguards da_global (connection_upper_y (region da)) mxg = Inr du
          \<and> int (global_ysize da_global) < yupper_ind (region da) + myg
          \<longrightarrow> concat_upper_guards da da_global mxg myg = Inl MissingBoundaryData)"
  using assms
  by (auto simp: concat_lower_guards_def concat_upper_guards_def Let_def
      get_lower_guards_slices_def get_upper_guards_slices_def)

lemma core_fetch:
  "map_sum id data (from_region_interior (g_core [''x'', ''theta'']) (Some ''core''))
     = Inr [[0, 1, 2, 3], [10, 11, 12, 13]]"
  by code_simp

theorem concat_y_guards_missing_boundary_witness:
  "(case from_region_interior (g_core [''x'', ''theta'']) (Some ''core'') of
      Inl e \<Rightarrow> False
    | Inr da \<Rightarrow> concat_lower_guards da (g_core [''x'', ''theta'']) 0 2 = Inl MissingBoundaryData
        \<and> concat_upper_guards da (g_core [''x'', ''theta'']) 0 2 = Inl MissingBoundaryData)"
proof (cases "from_region_interior (g_core [''x'', ''theta'']) (Some ''core'')")
  case (Inl e)
  with core_fetch show ?thesis by simp
next
  case (Inr da)
  have r: "map_sum id (\<lambda>d. (ylower_ind (region d), yupper_ind (region d),
        connection_lower_y (region d), connection_upper_y (region d),
        geometry (region d) \<noteq> None, coords d))
      (from_region_interior (g_core [''x'', ''theta'']) (Some ''core''))
     = Inr (0, 4, Some ''core'', Some ''core'', True, [''x'', ''theta''])"
    by code_simp
  have f: "\<not> isl (from_region_xguards (g_core [''x'', ''theta'']) (Some ''core'') 0)"
    by code_simp
  have m: "bout_ydim (global_metadata (g_core [''x'', ''theta''])) = ''theta''"
    "global_ysize (g_core [''x'', ''theta'']) = 4"
    by code_simp+
  from r Inr have d: "ylower_ind (region da) = 0" "yupper_ind (region da) = 4"
    "connection_lower_y (region da) = Some ''core''" "connection_upper_y (region da) = Some ''core''"
    "geometry (region da) \<noteq> None" "coords da = [''x'', ''theta'']"
    by simp_all
  have x: "from_region_xguards (g_core [''x'', ''theta'']) (Some ''core'') 0
      = Inr (projr (from_region_xguards (g_core [''x'', ''theta'']) (Some ''core'') 0))"
    using f by simp
  have "concat_lower_guards da (g_core [''x'', ''theta'']) 0 2 = Inl MissingBoundaryData
      \<and> concat_upper_guards da (g_core [''x'', ''theta'']) 0 2 = Inl MissingBoundaryData"
    using concat_y_guards_missing_boundary[of 2 "g_core [''x'', ''theta'']" da 0
        "projr (from_region_xguards (g_core [''x'', ''theta'']) (Some ''core'') 0)"
        "projr (from_region_xguards (g_core [''x'', ''theta'']) (Some ''core'') 0)"]
      x d m by simp
  with Inr show ?thesis by simp
qed

end
